theory Spec2Isabelle
  imports Main "HOL-Library.Char_ord" "HOL-Library.List_Lexorder"
begin

section \<open>Key details view model (KeyDetails+ViewModel.swift)\<close>

text \<open>
  A shallow embedding of \<^verbatim>\<open>KeyDetailsView.ViewModel\<close>. The class is a bag of mutable
  stored properties that its methods update on the main thread; the model is a record of
  those properties and every method is a function from the record to the updated record.

  Conventions of the embedding:
  \<^item> Swift \<^verbatim>\<open>String\<close> is \<open>string\<close>, and \<^verbatim>\<open><\<close> on strings is the lexicographic order
    of \<open>HOL-Library.List_Lexorder\<close> over the character order of \<open>HOL-Library.Char_ord\<close>.
    On ASCII derivation paths this is what Swift compares.
  \<^item> An optional is an \<open>option\<close>; \<^verbatim>\<open>Result<T, ServiceError>\<close> is \<open>ServiceError + T\<close>
    with \<open>Inl\<close> the failure.
  \<^item> Types declared outside this file are records of the fields this file reads; types
    this file only stores and never inspects are type parameters.
  \<^item> A service that answers through a completion handler is asynchronous. The method
    that issues the request only records it in the \<open>emitted\<close> log; the handler is a
    function of its own, named \<open>_completion\<close>, that takes the \<^verbatim>\<open>Result\<close> it is
    called with. It runs on the main thread at some later point, on whatever the state is
    then.
  \<^item> Calls that only leave the view model (the dismiss subject, the completion closure,
    fire-and-forget service actions) are appended to the \<open>emitted\<close> log as well.
  \<^item> A synchronous collaborator whose answer the method branches on is a parameter of
    the method.
\<close>

subsection \<open>Data model\<close>

record Address =
  path :: string
  seedName :: string

record MAddressCard =
  base58 :: string
  address :: Address

record MKeysCard =
  address :: Address

record MscNetworkInfo =
  networkSpecsKey :: string

text \<open>\<^verbatim>\<open>publicKeyDetails\<close> is a property of the card that the file reads but does not define.\<close>

record MKeyAndNetworkCard =
  key :: MKeysCard
  network :: MscNetworkInfo
  publicKeyDetails :: string

text \<open>\<^verbatim>\<open>set\<close> is the Swift field name; it clashes with the HOL constant.\<close>

record MKeysNew =
  root :: "MAddressCard option"
  set' :: "MKeyAndNetworkCard list"

text \<open>The identifier of a selectable network is the field \<^verbatim>\<open>key\<close> of \<^verbatim>\<open>MmNetwork\<close>.\<close>

record MmNetwork =
  key :: string
  title :: string

record UserData =
  allNetworks :: "MmNetwork list"
  selectedNetworks :: "MmNetwork list"

record AppState =
  userData :: UserData

record ServiceError =
  description :: string

datatype OnCompletionAction = keySetDeleted

datatype ViewState = emptyState | list

text \<open>The two factory functions of \<^verbatim>\<open>ErrorBottomModalViewModel\<close> that the file calls.\<close>

datatype ErrorBottomModalViewModel =
  alertError string
  | noNetworksAvailable

datatype SnackbarStyle = info | warning

text \<open>\<open>style = None\<close> stands for the initialiser's default style.\<close>

record SnackbarViewModel =
  title :: string
  style :: "SnackbarStyle option"

record KeySummaryViewModel =
  keyName :: string
  base58 :: string

text \<open>\<open>'vm\<close> is \<^verbatim>\<open>DerivedKeyRowViewModel\<close>.\<close>

record 'vm DerivedKeyRowModel =
  keyData :: MKeyAndNetworkCard
  viewModel :: 'vm
  publicKeyDetails :: string

text \<open>What leaves the view model, in the order it leaves.\<close>

datatype Emitted =
  keyDetailsService_getKeys string
  | networksService_getNetworks
  | keyDetailsActionsService_forgetKeySetAction string
  | dismissRequest_send
  | onCompletion OnCompletionAction

text \<open>
  The stored properties of the view model that can change. \<open>'vm\<close> is
  \<^verbatim>\<open>DerivedKeyRowViewModel\<close>, \<open>'kd\<close> is \<^verbatim>\<open>MKeyDetails\<close>, \<open>'bm\<close> is
  \<^verbatim>\<open>BackupModalViewModel\<close>. \<open>appState\<close> is the shared application state the view
  model holds a reference to.
\<close>

record ('vm, 'kd, 'bm) ViewModel =
  keyName :: string
  keysData :: "MKeysNew option"
  appState :: AppState
  shouldPresentRemoveConfirmationModal :: bool
  shouldPresentBackupModal :: bool
  shouldPresentSelectionOverlay :: bool
  isShowingActionSheet :: bool
  isShowingRemoveConfirmation :: bool
  isShowingBackupModal :: bool
  isPresentingConnectivityAlert :: bool
  isPresentingSelectionOverlay :: bool
  isPresentingRootDetails :: bool
  isPresentingKeyDetails :: bool
  presentedKeyDetails :: "'kd option"
  presentedPublicKeyDetails :: "string option"
  isShowingKeysExportModal :: bool
  isPresentingNetworkSelection :: bool
  keySummary :: "KeySummaryViewModel option"
  derivedKeys :: "'vm DerivedKeyRowModel list"
  selectedKeys :: "'vm DerivedKeyRowModel list"
  isFilteringActive :: bool
  isPresentingError :: bool
  presentableError :: ErrorBottomModalViewModel
  viewState :: ViewState
  backupModal :: "'bm option"
  snackbarViewModel :: SnackbarViewModel
  isSnackbarPresented :: bool
  isPresentingDeriveNewKey :: bool
  removeSeed :: string
  emitted :: "Emitted list"

subsection \<open>Swift standard library: \<^verbatim>\<open>sorted(by:)\<close>\<close>

text \<open>
  \<^verbatim>\<open>sorted(by: areInIncreasingOrder)\<close> is a stable sort: elements that the predicate
  does not order keep their relative position. The model is a stable insertion sort.
\<close>

fun insert_by :: "('a \<Rightarrow> 'a \<Rightarrow> bool) \<Rightarrow> 'a \<Rightarrow> 'a list \<Rightarrow> 'a list" where
  "insert_by lt x [] = [x]"
| "insert_by lt x (y # ys) = (if lt y x then y # insert_by lt x ys else x # y # ys)"

definition sorted_by :: "('a \<Rightarrow> 'a \<Rightarrow> bool) \<Rightarrow> 'a list \<Rightarrow> 'a list" where
  "sorted_by lt xs = foldr (insert_by lt) xs []"

subsection \<open>Derived-key projection\<close>

text \<open>
  \<^verbatim>\<open>refreshDerivedKeys\<close>. \<open>rowViewModel\<close> is the initialiser
  \<^verbatim>\<open>DerivedKeyRowViewModel(_:)\<close>, which is declared elsewhere.
\<close>

definition refreshDerivedKeys ::
  "(MKeyAndNetworkCard \<Rightarrow> 'vm) \<Rightarrow> ('vm, 'kd, 'bm) ViewModel \<Rightarrow> ('vm, 'kd, 'bm) ViewModel" where
  "refreshDerivedKeys rowViewModel self =
     (case keysData self of
        None \<Rightarrow> self
      | Some keysData' \<Rightarrow>
          let sortedDerivedKeys =
                sorted_by (\<lambda>a b. path (MKeysCard.address (MKeyAndNetworkCard.key a))
                                  < path (MKeysCard.address (MKeyAndNetworkCard.key b)))
                  (set' keysData');
              filteredKeys =
                (if selectedNetworks (userData (appState self)) = [] then sortedDerivedKeys
                 else filter
                        (\<lambda>c. networkSpecsKey (network c)
                                \<in> set (map MmNetwork.key (selectedNetworks (userData (appState self)))))
                        sortedDerivedKeys);
              derivedKeys' =
                map (\<lambda>c. \<lparr> keyData = c, viewModel = rowViewModel c,
                            publicKeyDetails = MKeyAndNetworkCard.publicKeyDetails c \<rparr>)
                  filteredKeys
          in self \<lparr> derivedKeys := derivedKeys',
                    viewState := (if derivedKeys' = [] then emptyState else list) \<rparr>)"

text \<open>\<^verbatim>\<open>refreshKeySummary\<close>.\<close>

definition refreshKeySummary :: "('vm, 'kd, 'bm) ViewModel \<Rightarrow> ('vm, 'kd, 'bm) ViewModel" where
  "refreshKeySummary self =
     (case keysData self of
        None \<Rightarrow> self
      | Some keysData' \<Rightarrow>
          self \<lparr> keySummary :=
                   Some \<lparr> KeySummaryViewModel.keyName = (case root keysData' of
                                         None \<Rightarrow> []
                                       | Some r \<Rightarrow> seedName (MAddressCard.address r)),
                          KeySummaryViewModel.base58 = (case root keysData' of
                                      None \<Rightarrow> []
                                    | Some r \<Rightarrow> MAddressCard.base58 r) \<rparr>,
                 removeSeed := (case root keysData' of
                                  None \<Rightarrow> []
                                | Some r \<Rightarrow> seedName (MAddressCard.address r)) \<rparr>)"

subsection \<open>Fetching\<close>

text \<open>\<^verbatim>\<open>refreshNetworks\<close>: the request, and the handler given to \<^verbatim>\<open>getNetworks\<close>.\<close>

definition refreshNetworks :: "('vm, 'kd, 'bm) ViewModel \<Rightarrow> ('vm, 'kd, 'bm) ViewModel" where
  "refreshNetworks self = self \<lparr> emitted := emitted self @ [networksService_getNetworks] \<rparr>"

definition refreshNetworks_completion ::
  "ServiceError + MmNetwork list \<Rightarrow> ('vm, 'kd, 'bm) ViewModel \<Rightarrow> ('vm, 'kd, 'bm) ViewModel" where
  "refreshNetworks_completion result self =
     (case result of
        Inr networks \<Rightarrow>
          self \<lparr> appState :=
                   (appState self) \<lparr> userData :=
                     (userData (appState self)) \<lparr> allNetworks := networks \<rparr> \<rparr> \<rparr>
      | Inl error \<Rightarrow>
          self \<lparr> presentableError := alertError (description error),
                 isPresentingError := True \<rparr>)"

text \<open>\<^verbatim>\<open>updateRenderables\<close>.\<close>

definition updateRenderables ::
  "(MKeyAndNetworkCard \<Rightarrow> 'vm) \<Rightarrow> ('vm, 'kd, 'bm) ViewModel \<Rightarrow> ('vm, 'kd, 'bm) ViewModel" where
  "updateRenderables rowViewModel self =
     refreshNetworks (refreshKeySummary (refreshDerivedKeys rowViewModel self))"

text \<open>\<^verbatim>\<open>refreshData\<close>: the request, and the handler given to \<^verbatim>\<open>getKeys(for:)\<close>.\<close>

definition refreshData :: "('vm, 'kd, 'bm) ViewModel \<Rightarrow> ('vm, 'kd, 'bm) ViewModel" where
  "refreshData self =
     self \<lparr> emitted := emitted self @ [keyDetailsService_getKeys (ViewModel.keyName self)] \<rparr>"

definition refreshData_completion ::
  "(MKeyAndNetworkCard \<Rightarrow> 'vm) \<Rightarrow> ServiceError + MKeysNew
     \<Rightarrow> ('vm, 'kd, 'bm) ViewModel \<Rightarrow> ('vm, 'kd, 'bm) ViewModel" where
  "refreshData_completion rowViewModel result self =
     (case result of
        Inr keysData' \<Rightarrow> updateRenderables rowViewModel (self \<lparr> keysData := Some keysData' \<rparr>)
      | Inl error \<Rightarrow>
          self \<lparr> presentableError := alertError (description error),
                 isPresentingError := True \<rparr>)"

subsection \<open>Network selection\<close>

text \<open>
  The two subscriptions to \<^verbatim>\<open>$isPresentingNetworkSelection\<close>. A \<^verbatim>\<open>@Published\<close>
  property delivers its current value to a new subscriber, and every later assignment
  delivers the new value to all subscribers, in the order they subscribed, before the
  property itself changes. The closures are \<open>use_sink\<close> (in \<^verbatim>\<open>use(appState:)\<close>) and
  \<open>subscribeToNetworkChanges_sink\<close>.
\<close>

definition use_sink :: "bool \<Rightarrow> ('vm, 'kd, 'bm) ViewModel \<Rightarrow> ('vm, 'kd, 'bm) ViewModel" where
  "use_sink newValue self =
     (if newValue then self
      else self \<lparr> isFilteringActive := (selectedNetworks (userData (appState self)) \<noteq> []) \<rparr>)"

definition subscribeToNetworkChanges_sink ::
  "(MKeyAndNetworkCard \<Rightarrow> 'vm) \<Rightarrow> bool
     \<Rightarrow> ('vm, 'kd, 'bm) ViewModel \<Rightarrow> ('vm, 'kd, 'bm) ViewModel" where
  "subscribeToNetworkChanges_sink rowViewModel newValue self =
     (if newValue then self else refreshDerivedKeys rowViewModel self)"

definition use :: "('vm, 'kd, 'bm) ViewModel \<Rightarrow> ('vm, 'kd, 'bm) ViewModel" where
  "use self = use_sink (isPresentingNetworkSelection self) self"

definition subscribeToNetworkChanges ::
  "(MKeyAndNetworkCard \<Rightarrow> 'vm) \<Rightarrow> ('vm, 'kd, 'bm) ViewModel \<Rightarrow> ('vm, 'kd, 'bm) ViewModel" where
  "subscribeToNetworkChanges rowViewModel self =
     subscribeToNetworkChanges_sink rowViewModel (isPresentingNetworkSelection self) self"

text \<open>An assignment to \<^verbatim>\<open>isPresentingNetworkSelection\<close> once both sinks are subscribed.\<close>

definition set_isPresentingNetworkSelection ::
  "(MKeyAndNetworkCard \<Rightarrow> 'vm) \<Rightarrow> bool
     \<Rightarrow> ('vm, 'kd, 'bm) ViewModel \<Rightarrow> ('vm, 'kd, 'bm) ViewModel" where
  "set_isPresentingNetworkSelection rowViewModel newValue self =
     (subscribeToNetworkChanges_sink rowViewModel newValue (use_sink newValue self))
       \<lparr> isPresentingNetworkSelection := newValue \<rparr>"

text \<open>\<^verbatim>\<open>onNetworkSelectionTap\<close>: the request, and the handler given to \<^verbatim>\<open>getNetworks\<close>.\<close>

definition onNetworkSelectionTap :: "('vm, 'kd, 'bm) ViewModel \<Rightarrow> ('vm, 'kd, 'bm) ViewModel" where
  "onNetworkSelectionTap self = self \<lparr> emitted := emitted self @ [networksService_getNetworks] \<rparr>"

definition onNetworkSelectionTap_completion ::
  "(MKeyAndNetworkCard \<Rightarrow> 'vm) \<Rightarrow> ServiceError + MmNetwork list
     \<Rightarrow> ('vm, 'kd, 'bm) ViewModel \<Rightarrow> ('vm, 'kd, 'bm) ViewModel" where
  "onNetworkSelectionTap_completion rowViewModel result self =
     (case result of
        Inr networks \<Rightarrow>
          set_isPresentingNetworkSelection rowViewModel True
            (self \<lparr> appState :=
                      (appState self) \<lparr> userData :=
                        (userData (appState self)) \<lparr> allNetworks := networks \<rparr> \<rparr> \<rparr>)
      | Inl error \<Rightarrow> self)"

subsection \<open>Tap actions\<close>

text \<open>
  \<^verbatim>\<open>onRemoveKeySetConfirmationTap\<close>. \<open>seedsMediator_removeSeed\<close> is the answer of
  \<^verbatim>\<open>seedsMediator.removeSeed(seedName:)\<close>.
\<close>

definition onRemoveKeySetConfirmationTap ::
  "(string \<Rightarrow> bool) \<Rightarrow> ('vm, 'kd, 'bm) ViewModel \<Rightarrow> ('vm, 'kd, 'bm) ViewModel" where
  "onRemoveKeySetConfirmationTap seedsMediator_removeSeed self =
     (let isRemoved = seedsMediator_removeSeed (removeSeed self)
      in if \<not> isRemoved then self
         else self \<lparr> emitted := emitted self @
                  [keyDetailsActionsService_forgetKeySetAction (ViewModel.keyName self),
                   dismissRequest_send,
                   onCompletion keySetDeleted] \<rparr>)"

text \<open>
  \<^verbatim>\<open>onDerivedKeyTap\<close>. \<open>navigateToPublicKey\<close> is the answer of
  \<^verbatim>\<open>keyDetailsActionsService.navigateToPublicKey\<close>. Rows are compared with \<open>=\<close>.
\<close>

definition onDerivedKeyTap ::
  "(string \<Rightarrow> string \<Rightarrow> 'kd option) \<Rightarrow> 'vm DerivedKeyRowModel
     \<Rightarrow> ('vm, 'kd, 'bm) ViewModel \<Rightarrow> ('vm, 'kd, 'bm) ViewModel" where
  "onDerivedKeyTap navigateToPublicKey deriveKey self =
     (if isPresentingSelectionOverlay self then
        (if deriveKey \<in> set (selectedKeys self)
         then self \<lparr> selectedKeys := filter (\<lambda>x. \<not> x = deriveKey) (selectedKeys self) \<rparr>
         else self \<lparr> selectedKeys := selectedKeys self @ [deriveKey] \<rparr>)
      else
        (case navigateToPublicKey (ViewModel.keyName self)
                (DerivedKeyRowModel.publicKeyDetails deriveKey) of
           None \<Rightarrow> self
         | Some keyDetails \<Rightarrow>
             self \<lparr> presentedPublicKeyDetails := Some (DerivedKeyRowModel.publicKeyDetails deriveKey),
                    presentedKeyDetails := Some keyDetails,
                    isPresentingKeyDetails := True \<rparr>))"

subsection \<open>Construction\<close>

text \<open>\<^verbatim>\<open>init\<close>: the property defaults, the stored arguments, then the four calls.\<close>

definition init ::
  "(MKeyAndNetworkCard \<Rightarrow> 'vm) \<Rightarrow> string \<Rightarrow> MKeysNew option \<Rightarrow> AppState
     \<Rightarrow> ('vm, 'kd, 'bm) ViewModel" where
  "init rowViewModel keyName' keysData' appState' =
     refreshData (subscribeToNetworkChanges rowViewModel (updateRenderables rowViewModel (use
       \<lparr> keyName = keyName',
         keysData = keysData',
         appState = appState',
         shouldPresentRemoveConfirmationModal = False,
         shouldPresentBackupModal = False,
         shouldPresentSelectionOverlay = False,
         isShowingActionSheet = False,
         isShowingRemoveConfirmation = False,
         isShowingBackupModal = False,
         isPresentingConnectivityAlert = False,
         isPresentingSelectionOverlay = False,
         isPresentingRootDetails = False,
         isPresentingKeyDetails = False,
         presentedKeyDetails = None,
         presentedPublicKeyDetails = None,
         isShowingKeysExportModal = False,
         isPresentingNetworkSelection = False,
         keySummary = None,
         derivedKeys = [],
         selectedKeys = [],
         isFilteringActive = False,
         isPresentingError = False,
         presentableError = noNetworksAvailable,
         viewState = list,
         backupModal = None,
         snackbarViewModel = \<lparr> title = [], style = None \<rparr>,
         isSnackbarPresented = False,
         isPresentingDeriveNewKey = False,
         removeSeed = [],
         emitted = [] \<rparr>)))"

subsection \<open>Runs of the view model\<close>

text \<open>
  What can happen to a constructed view model, as far as the methods above go: a method is
  called, a completion handler is delivered, the view assigns
  \<^verbatim>\<open>isPresentingNetworkSelection\<close>, or another screen replaces the selected networks
  in the shared application state.
\<close>

datatype ('vm, 'kd) Event =
  RefreshData
  | RefreshDataCompleted "ServiceError + MKeysNew"
  | RefreshNetworks
  | RefreshNetworksCompleted "ServiceError + MmNetwork list"
  | UpdateRenderables
  | NetworkSelectionTap
  | NetworkSelectionTapCompleted "ServiceError + MmNetwork list"
  | NetworkSelectionAssigned bool
  | RemoveKeySetConfirmationTap "string \<Rightarrow> bool"
  | DerivedKeyTap "string \<Rightarrow> string \<Rightarrow> 'kd option" "'vm DerivedKeyRowModel"
  | SelectedNetworksReplaced "MmNetwork list"

fun step ::
  "(MKeyAndNetworkCard \<Rightarrow> 'vm) \<Rightarrow> ('vm, 'kd, 'bm) ViewModel \<Rightarrow> ('vm, 'kd) Event
     \<Rightarrow> ('vm, 'kd, 'bm) ViewModel" where
  "step rowViewModel self RefreshData = refreshData self"
| "step rowViewModel self (RefreshDataCompleted result) =
     refreshData_completion rowViewModel result self"
| "step rowViewModel self RefreshNetworks = refreshNetworks self"
| "step rowViewModel self (RefreshNetworksCompleted result) =
     refreshNetworks_completion result self"
| "step rowViewModel self UpdateRenderables = updateRenderables rowViewModel self"
| "step rowViewModel self NetworkSelectionTap = onNetworkSelectionTap self"
| "step rowViewModel self (NetworkSelectionTapCompleted result) =
     onNetworkSelectionTap_completion rowViewModel result self"
| "step rowViewModel self (NetworkSelectionAssigned newValue) =
     set_isPresentingNetworkSelection rowViewModel newValue self"
| "step rowViewModel self (RemoveKeySetConfirmationTap seedsMediator_removeSeed) =
     onRemoveKeySetConfirmationTap seedsMediator_removeSeed self"
| "step rowViewModel self (DerivedKeyTap navigateToPublicKey deriveKey) =
     onDerivedKeyTap navigateToPublicKey deriveKey self"
| "step rowViewModel self (SelectedNetworksReplaced networks) =
     self \<lparr> appState :=
              (appState self) \<lparr> userData :=
                (userData (appState self)) \<lparr> selectedNetworks := networks \<rparr> \<rparr> \<rparr>"

definition run ::
  "(MKeyAndNetworkCard \<Rightarrow> 'vm) \<Rightarrow> ('vm, 'kd) Event list \<Rightarrow> ('vm, 'kd, 'bm) ViewModel
     \<Rightarrow> ('vm, 'kd, 'bm) ViewModel" where
  "run rowViewModel events self = foldl (step rowViewModel) self events"

fun successfulFetch :: "('vm, 'kd) Event \<Rightarrow> bool" where
  "successfulFetch (RefreshDataCompleted (Inr keysData')) = True"
| "successfulFetch event = False"

text \<open>
  The state of a view model that was constructed without key-set data and has not yet
  seen a fetch of the key set succeed.
\<close>

definition awaitingFirstFetch :: "('vm, 'kd, 'bm) ViewModel \<Rightarrow> bool" where
  "awaitingFirstFetch self \<longleftrightarrow>
     keysData self = None \<and> viewState self = list \<and> derivedKeys self = []
     \<and> keySummary self = None"

subsection \<open>The projection as the specification words it\<close>

text \<open>
  The network filter is the set of identifiers of the selected networks in the shared
  application state.
\<close>

definition networkFilter :: "('vm, 'kd, 'bm) ViewModel \<Rightarrow> string set" where
  "networkFilter self = set (map MmNetwork.key (selectedNetworks (userData (appState self))))"

definition pathOf :: "MKeyAndNetworkCard \<Rightarrow> string" where
  "pathOf c = path (MKeysCard.address (MKeyAndNetworkCard.key c))"

text \<open>
  Sort the records by derivation path; if the filter is empty keep all of them, otherwise
  keep those whose network identifier is in the filter; map each kept record to a row.
  \<open>sort_key\<close> is the stable sort of the HOL library.
\<close>

definition derivedKeyProjection_spec ::
  "(MKeyAndNetworkCard \<Rightarrow> 'vm) \<Rightarrow> MKeysNew \<Rightarrow> string set \<Rightarrow> 'vm DerivedKeyRowModel list" where
  "derivedKeyProjection_spec rowViewModel keySet filter' =
     (let sorted' = sort_key pathOf (set' keySet);
          retained = (if filter' = {} then sorted'
                      else filter (\<lambda>c. networkSpecsKey (network c) \<in> filter') sorted')
      in map (\<lambda>c. \<lparr> keyData = c, viewModel = rowViewModel c,
                     publicKeyDetails = MKeyAndNetworkCard.publicKeyDetails c \<rparr>) retained)"

subsection \<open>Example data\<close>

definition exampleCard :: "string \<Rightarrow> string \<Rightarrow> MKeyAndNetworkCard" where
  "exampleCard p n =
     \<lparr> MKeyAndNetworkCard.key = \<lparr> MKeysCard.address = \<lparr> path = p, seedName = ''Alice'' \<rparr> \<rparr>,
       network = \<lparr> networkSpecsKey = n \<rparr>,
       MKeyAndNetworkCard.publicKeyDetails = n @ p \<rparr>"

definition exampleKeySet :: "MKeyAndNetworkCard list \<Rightarrow> MKeysNew" where
  "exampleKeySet cs =
     \<lparr> root = Some \<lparr> MAddressCard.base58 = ''5Grw'',
                     address = \<lparr> path = [], seedName = ''Alice'' \<rparr> \<rparr>,
       set' = cs \<rparr>"

definition exampleAppState :: "string list \<Rightarrow> AppState" where
  "exampleAppState selected =
     \<lparr> userData = \<lparr> allNetworks = [],
                      selectedNetworks = map (\<lambda>k. \<lparr> MmNetwork.key = k, title = k \<rparr>) selected \<rparr> \<rparr>"

text \<open>The row view model of the examples is the path of the card.\<close>

definition exampleViewModel ::
  "MKeysNew option \<Rightarrow> string list \<Rightarrow> (string, string, unit) ViewModel" where
  "exampleViewModel keysData' selected = init pathOf ''Alice'' keysData' (exampleAppState selected)"

definition exampleRow :: "string \<Rightarrow> string \<Rightarrow> string DerivedKeyRowModel" where
  "exampleRow p n =
     \<lparr> keyData = exampleCard p n, viewModel = p,
       publicKeyDetails = MKeyAndNetworkCard.publicKeyDetails (exampleCard p n) \<rparr>"

section \<open>Properties\<close>

subsection \<open>Sorting\<close>

lemma insert_by_insort_key:
  "insert_by (\<lambda>a b. f a < f b) x ys = insort_key (f :: 'a \<Rightarrow> 'b :: linorder) x ys"
  by (induction ys) (auto simp: not_less)

lemma sorted_by_sort_key:
  "sorted_by (\<lambda>a b. f a < f b) xs = sort_key (f :: 'a \<Rightarrow> 'b :: linorder) xs"
  unfolding sorted_by_def sort_key_def by (induction xs) (auto simp: insert_by_insort_key)

lemma sorted_by_pathOf:
  "sorted_by (\<lambda>a b. path (MKeysCard.address (MKeyAndNetworkCard.key a))
                     < path (MKeysCard.address (MKeyAndNetworkCard.key b))) cs
     = sort_key pathOf cs"
  using sorted_by_sort_key [of pathOf cs] by (simp add: pathOf_def)

subsection \<open>The two refresh steps\<close>

lemma refreshDerivedKeys_Some:
  assumes "keysData self = Some ks"
  shows "refreshDerivedKeys rv self =
           self \<lparr> derivedKeys := derivedKeyProjection_spec rv ks (networkFilter self),
                  viewState := (if derivedKeyProjection_spec rv ks (networkFilter self) = []
                                then emptyState else list) \<rparr>"
  using assms
  by (simp add: refreshDerivedKeys_def derivedKeyProjection_spec_def Let_def
        sorted_by_pathOf networkFilter_def)

lemma refreshDerivedKeys_None: "keysData self = None \<Longrightarrow> refreshDerivedKeys rv self = self"
  by (simp add: refreshDerivedKeys_def)

lemma refreshKeySummary_None: "keysData self = None \<Longrightarrow> refreshKeySummary self = self"
  by (simp add: refreshKeySummary_def)

text \<open>The rows of the projection are in non-decreasing order of path, whatever the filter.\<close>

lemma projection_sorted:
  "sorted (map (\<lambda>r. pathOf (keyData r)) (derivedKeyProjection_spec rv ks F))"
  by (simp add: derivedKeyProjection_spec_def Let_def comp_def sorted_filter)

subsection \<open>Construction and the examples\<close>

lemmas init_defs = init_def refreshData_def subscribeToNetworkChanges_def
  subscribeToNetworkChanges_sink_def updateRenderables_def refreshNetworks_def
  refreshKeySummary_def refreshDerivedKeys_def use_def use_sink_def Let_def

lemma keysData_init: "keysData (init rv n kd a) = kd"
  by (simp add: init_defs split: option.splits)

lemma appState_init: "appState (init rv n kd a) = a"
  by (simp add: init_defs split: option.splits)

lemma exampleViewModel_keysData: "keysData (exampleViewModel kd sel) = kd"
  by (simp add: exampleViewModel_def keysData_init)

lemma exampleViewModel_networkFilter: "networkFilter (exampleViewModel kd sel) = set sel"
  by (simp add: exampleViewModel_def networkFilter_def appState_init exampleAppState_def comp_def)

subsection \<open>Derived-key projection\<close>

text \<open>
  Claim C1. For every key set and network filter, \<^verbatim>\<open>refreshDerivedKeys\<close> leaves in
  \<open>derivedKeys\<close> exactly the records of the key set sorted by derivation path in
  lexicographic order, then restricted to the records whose network identifier is in the
  filter when the filter is not empty (all of them when it is empty), then mapped to rows.
\<close>

theorem refreshDerivedKeys_projection:
  assumes "keysData self = Some keySet"
  shows "derivedKeys (refreshDerivedKeys rowViewModel self) =
           derivedKeyProjection_spec rowViewModel keySet (networkFilter self)"
  using assms
  by (simp add: refreshDerivedKeys_def derivedKeyProjection_spec_def Let_def
        sorted_by_pathOf networkFilter_def)

text \<open>The paths \<open>//1\<close>, \<open>//0\<close>, \<open>//2\<close> with no network selected come out as \<open>//0\<close>, \<open>//1\<close>, \<open>//2\<close>.\<close>

theorem refreshDerivedKeys_projection_witness:
  "keysData (exampleViewModel (Some (exampleKeySet
       [exampleCard ''//1'' ''A'', exampleCard ''//0'' ''A'', exampleCard ''//2'' ''A''])) [])
     = Some (exampleKeySet
       [exampleCard ''//1'' ''A'', exampleCard ''//0'' ''A'', exampleCard ''//2'' ''A''])
   \<and> derivedKeys (refreshDerivedKeys pathOf (exampleViewModel (Some (exampleKeySet
       [exampleCard ''//1'' ''A'', exampleCard ''//0'' ''A'', exampleCard ''//2'' ''A''])) []))
     = [exampleRow ''//0'' ''A'', exampleRow ''//1'' ''A'', exampleRow ''//2'' ''A'']"
proof -
  let ?ks = "exampleKeySet
       [exampleCard ''//1'' ''A'', exampleCard ''//0'' ''A'', exampleCard ''//2'' ''A'']"
  have h: "keysData (exampleViewModel (Some ?ks) []) = Some ?ks"
    by (simp add: exampleViewModel_keysData)
  have f: "networkFilter (exampleViewModel (Some ?ks) []) = {}"
    by (simp add: exampleViewModel_networkFilter)
  have "derivedKeyProjection_spec pathOf ?ks {}
          = [exampleRow ''//0'' ''A'', exampleRow ''//1'' ''A'', exampleRow ''//2'' ''A'']"
    by (simp add: derivedKeyProjection_spec_def exampleKeySet_def exampleCard_def exampleRow_def
          pathOf_def)
  with refreshDerivedKeys_projection [OF h, of pathOf] f h show ?thesis by simp
qed

subsection \<open>View state\<close>

text \<open>
  Claim C4. For every key set and network filter, after \<^verbatim>\<open>refreshDerivedKeys\<close> the view
  state is \<open>emptyState\<close> if and only if the projected row sequence is empty, and \<open>list\<close>
  otherwise; the projected row sequence is what \<open>derivedKeys\<close> then holds.
\<close>

theorem viewState_emptyState_iff:
  assumes "keysData self = Some keySet"
  shows "(viewState (refreshDerivedKeys rowViewModel self) = emptyState
            \<longleftrightarrow> derivedKeyProjection_spec rowViewModel keySet (networkFilter self) = [])
       \<and> (viewState (refreshDerivedKeys rowViewModel self) = list
            \<longleftrightarrow> derivedKeyProjection_spec rowViewModel keySet (networkFilter self) \<noteq> [])
       \<and> derivedKeys (refreshDerivedKeys rowViewModel self)
            = derivedKeyProjection_spec rowViewModel keySet (networkFilter self)"
  by (simp add: refreshDerivedKeys_Some [OF assms])

text \<open>
  Keys on the networks \<open>A\<close> and \<open>B\<close>: with \<open>C\<close> selected nothing is left and the view
  state is \<open>emptyState\<close>; with \<open>A\<close> selected one row is left and the view state is \<open>list\<close>.
\<close>

theorem viewState_emptyState_iff_witness:
  "viewState (refreshDerivedKeys pathOf (exampleViewModel (Some (exampleKeySet
       [exampleCard ''//1'' ''A'', exampleCard ''//0'' ''B''])) [''C''])) = emptyState
   \<and> derivedKeyProjection_spec pathOf (exampleKeySet
       [exampleCard ''//1'' ''A'', exampleCard ''//0'' ''B'']) {''C''} = []
   \<and> viewState (refreshDerivedKeys pathOf (exampleViewModel (Some (exampleKeySet
       [exampleCard ''//1'' ''A'', exampleCard ''//0'' ''B''])) [''A''])) = list
   \<and> derivedKeyProjection_spec pathOf (exampleKeySet
       [exampleCard ''//1'' ''A'', exampleCard ''//0'' ''B'']) {''A''} = [exampleRow ''//1'' ''A'']"
proof -
  let ?ks = "exampleKeySet [exampleCard ''//1'' ''A'', exampleCard ''//0'' ''B'']"
  have hC: "keysData (exampleViewModel (Some ?ks) [''C'']) = Some ?ks"
    and hA: "keysData (exampleViewModel (Some ?ks) [''A'']) = Some ?ks"
    by (simp_all add: exampleViewModel_keysData)
  have pC: "derivedKeyProjection_spec pathOf ?ks {''C''} = []"
    by (simp add: derivedKeyProjection_spec_def exampleKeySet_def exampleCard_def pathOf_def)
  have pA: "derivedKeyProjection_spec pathOf ?ks {''A''} = [exampleRow ''//1'' ''A'']"
    by (simp add: derivedKeyProjection_spec_def exampleKeySet_def exampleCard_def exampleRow_def
          pathOf_def)
  from viewState_emptyState_iff [OF hC, of pathOf] viewState_emptyState_iff [OF hA, of pathOf]
    pC pA
  show ?thesis by (simp add: exampleViewModel_networkFilter)
qed

subsection \<open>A failed fetch of the key set\<close>

text \<open>
  Claim C2. When the fetch that \<^verbatim>\<open>refreshData\<close> requested fails, the error flag is set,
  the presented error carries the description of the failure, and the stored key set, the
  derived keys, the key summary and the view state are what they were.
\<close>

theorem refreshData_failure:
  "isPresentingError (refreshData_completion rowViewModel (Inl error) (refreshData self))
   \<and> presentableError (refreshData_completion rowViewModel (Inl error) (refreshData self))
       = alertError (description error)
   \<and> keysData (refreshData_completion rowViewModel (Inl error) (refreshData self)) = keysData self
   \<and> derivedKeys (refreshData_completion rowViewModel (Inl error) (refreshData self))
       = derivedKeys self
   \<and> keySummary (refreshData_completion rowViewModel (Inl error) (refreshData self))
       = keySummary self
   \<and> viewState (refreshData_completion rowViewModel (Inl error) (refreshData self))
       = viewState self"
  by (simp add: refreshData_completion_def refreshData_def)

subsection \<open>Selection\<close>

lemma filter_neq_removeAll: "filter (\<lambda>x. \<not> x = y) xs = removeAll y xs"
  by (induction xs) auto

lemma selectedKeys_onDerivedKeyTap:
  assumes "isPresentingSelectionOverlay self"
  shows "selectedKeys (onDerivedKeyTap nav row self)
           = (if row \<in> set (selectedKeys self) then removeAll row (selectedKeys self)
              else selectedKeys self @ [row])"
    and "isPresentingSelectionOverlay (onDerivedKeyTap nav row self)"
  using assms by (simp_all add: onDerivedKeyTap_def filter_neq_removeAll)

text \<open>
  Claim C6. While the selection overlay is presented, one tap on a row removes every
  element equal to the row from the selected keys if the row is among them and appends the
  row otherwise; two taps in succession leave the same rows selected as before (the
  symmetric difference of the two memberships is empty).
\<close>

theorem onDerivedKeyTap_toggle:
  assumes "isPresentingSelectionOverlay self"
  shows "selectedKeys (onDerivedKeyTap navigateToPublicKey row self)
           = (if row \<in> set (selectedKeys self) then removeAll row (selectedKeys self)
              else selectedKeys self @ [row])
       \<and> set (selectedKeys (onDerivedKeyTap navigateToPublicKey row
                (onDerivedKeyTap navigateToPublicKey row self))) = set (selectedKeys self)
       \<and> (set (selectedKeys (onDerivedKeyTap navigateToPublicKey row
                (onDerivedKeyTap navigateToPublicKey row self))) - set (selectedKeys self))
          \<union> (set (selectedKeys self) - set (selectedKeys (onDerivedKeyTap navigateToPublicKey row
                (onDerivedKeyTap navigateToPublicKey row self)))) = {}"
proof -
  let ?once = "onDerivedKeyTap navigateToPublicKey row self"
  let ?twice = "onDerivedKeyTap navigateToPublicKey row ?once"
  have one: "selectedKeys ?once
           = (if row \<in> set (selectedKeys self) then removeAll row (selectedKeys self)
              else selectedKeys self @ [row])"
    by (rule selectedKeys_onDerivedKeyTap(1) [OF assms])
  have mode: "isPresentingSelectionOverlay ?once"
    by (rule selectedKeys_onDerivedKeyTap(2) [OF assms])
  have two: "selectedKeys ?twice
           = (if row \<in> set (selectedKeys ?once) then removeAll row (selectedKeys ?once)
              else selectedKeys ?once @ [row])"
    by (rule selectedKeys_onDerivedKeyTap(1) [OF mode])
  have same: "set (selectedKeys ?twice) = set (selectedKeys self)"
  proof (cases "row \<in> set (selectedKeys self)")
    case True
    then show ?thesis by (auto simp: one two)
  next
    case False
    then show ?thesis by (simp add: one two)
  qed
  from one same show ?thesis by simp
qed

text \<open>
  The selection holds the row \<open>//0\<close>: one tap empties it, the second tap selects the row
  again.
\<close>

theorem onDerivedKeyTap_toggle_witness:
  "isPresentingSelectionOverlay
     ((exampleViewModel None []) \<lparr> isPresentingSelectionOverlay := True,
                                   selectedKeys := [exampleRow ''//0'' ''A''] \<rparr>)
   \<and> selectedKeys (onDerivedKeyTap (\<lambda>keyName details. None) (exampleRow ''//0'' ''A'')
       ((exampleViewModel None []) \<lparr> isPresentingSelectionOverlay := True,
                                     selectedKeys := [exampleRow ''//0'' ''A''] \<rparr>)) = []
   \<and> set (selectedKeys (onDerivedKeyTap (\<lambda>keyName details. None) (exampleRow ''//0'' ''A'')
       (onDerivedKeyTap (\<lambda>keyName details. None) (exampleRow ''//0'' ''A'')
         ((exampleViewModel None []) \<lparr> isPresentingSelectionOverlay := True,
                                       selectedKeys := [exampleRow ''//0'' ''A''] \<rparr>))))
       = {exampleRow ''//0'' ''A''}"
  using onDerivedKeyTap_toggle
          [of "(exampleViewModel None []) \<lparr> isPresentingSelectionOverlay := True,
                                            selectedKeys := [exampleRow ''//0'' ''A''] \<rparr>"
              "\<lambda>keyName details. None" "exampleRow ''//0'' ''A''"]
  by simp

subsection \<open>The constructed view model\<close>

lemma emitted_init:
  "emitted (init rv n kd a) = [networksService_getNetworks, keyDetailsService_getKeys n]"
  by (simp add: init_defs split: option.splits)

lemma keyName_init: "ViewModel.keyName (init rv n kd a) = n"
  by (simp add: init_defs split: option.splits)

lemma removeSeed_init:
  "removeSeed (init rv n kd a) =
     (case kd of None \<Rightarrow> []
      | Some ks \<Rightarrow> (case root ks of None \<Rightarrow> [] | Some r \<Rightarrow> seedName (MAddressCard.address r)))"
  by (simp add: init_defs split: option.splits)

lemma init_None:
  "viewState (init rv n None a) = list" "derivedKeys (init rv n None a) = []"
  "keySummary (init rv n None a) = None"
  by (simp_all add: init_defs)

lemma flags_init:
  "\<not> isPresentingSelectionOverlay (init rv n kd a)"
  "\<not> isPresentingError (init rv n kd a)"
  "\<not> isPresentingKeyDetails (init rv n kd a)"
  "\<not> isPresentingNetworkSelection (init rv n kd a)"
  by (simp_all add: init_defs split: option.splits)

subsection \<open>Removing the key set\<close>

text \<open>
  Claim C5. When \<^verbatim>\<open>onRemoveKeySetConfirmationTap\<close> is called: if the seeds mediator
  answers true, the forget action, one dismiss request and one \<open>keySetDeleted\<close> completion
  leave the view model, in this order, and nothing else changes; if it answers false, the
  view model is left exactly as it was, which means nothing is emitted and no error is
  presented.
\<close>

theorem onRemoveKeySetConfirmationTap_cases:
  "(seedsMediator_removeSeed (removeSeed self) \<longrightarrow>
      onRemoveKeySetConfirmationTap seedsMediator_removeSeed self
        = self \<lparr> emitted := emitted self @
                   [keyDetailsActionsService_forgetKeySetAction (ViewModel.keyName self),
                    dismissRequest_send, onCompletion keySetDeleted] \<rparr>)
   \<and> (\<not> seedsMediator_removeSeed (removeSeed self) \<longrightarrow>
      onRemoveKeySetConfirmationTap seedsMediator_removeSeed self = self)"
  by (simp add: onRemoveKeySetConfirmationTap_def)

text \<open>A mediator that removes the seed \<open>Alice\<close>, and one that removes nothing.\<close>

theorem onRemoveKeySetConfirmationTap_cases_witness:
  "emitted (onRemoveKeySetConfirmationTap (\<lambda>seedName. seedName = ''Alice'')
      (exampleViewModel (Some (exampleKeySet [])) []))
     = [networksService_getNetworks, keyDetailsService_getKeys ''Alice'',
        keyDetailsActionsService_forgetKeySetAction ''Alice'', dismissRequest_send,
        onCompletion keySetDeleted]
   \<and> onRemoveKeySetConfirmationTap (\<lambda>seedName. False)
        (exampleViewModel (Some (exampleKeySet [])) [])
     = exampleViewModel (Some (exampleKeySet [])) []"
  using onRemoveKeySetConfirmationTap_cases
          [of "\<lambda>seedName. seedName = ''Alice''" "exampleViewModel (Some (exampleKeySet [])) []"]
        onRemoveKeySetConfirmationTap_cases
          [of "\<lambda>seedName. False" "exampleViewModel (Some (exampleKeySet [])) []"]
  by (simp add: exampleViewModel_def removeSeed_init emitted_init keyName_init exampleKeySet_def)

subsection \<open>A successful fetch of the key set\<close>

lemma refreshData_frame:
  "keysData (refreshData s) = keysData s" "appState (refreshData s) = appState s"
  "derivedKeys (refreshData s) = derivedKeys s" "keySummary (refreshData s) = keySummary s"
  "viewState (refreshData s) = viewState s"
  by (simp_all add: refreshData_def)

lemma networkFilter_refreshData: "networkFilter (refreshData s) = networkFilter s"
  by (simp add: networkFilter_def refreshData_frame)

lemma refreshData_completion_success:
  "derivedKeys (refreshData_completion rv (Inr ks) s)
     = derivedKeyProjection_spec rv ks (networkFilter s)"
  "keySummary (refreshData_completion rv (Inr ks) s)
     = Some \<lparr> KeySummaryViewModel.keyName =
                (case root ks of None \<Rightarrow> [] | Some r \<Rightarrow> seedName (MAddressCard.address r)),
              KeySummaryViewModel.base58 =
                (case root ks of None \<Rightarrow> [] | Some r \<Rightarrow> MAddressCard.base58 r) \<rparr>"
  "appState (refreshData_completion rv (Inr ks) s) = appState s"
  "keysData (refreshData_completion rv (Inr ks) s) = Some ks"
proof -
  let ?s = "s \<lparr> keysData := Some ks \<rparr>"
  have k: "keysData ?s = Some ks" by simp
  have nf: "networkFilter ?s = networkFilter s" by (simp add: networkFilter_def)
  show "derivedKeys (refreshData_completion rv (Inr ks) s)
     = derivedKeyProjection_spec rv ks (networkFilter s)"
    by (simp add: refreshData_completion_def updateRenderables_def refreshNetworks_def
        refreshKeySummary_def refreshDerivedKeys_Some [OF k] nf)
  show "keySummary (refreshData_completion rv (Inr ks) s)
     = Some \<lparr> KeySummaryViewModel.keyName =
                (case root ks of None \<Rightarrow> [] | Some r \<Rightarrow> seedName (MAddressCard.address r)),
              KeySummaryViewModel.base58 =
                (case root ks of None \<Rightarrow> [] | Some r \<Rightarrow> MAddressCard.base58 r) \<rparr>"
    by (simp add: refreshData_completion_def updateRenderables_def refreshNetworks_def
        refreshKeySummary_def refreshDerivedKeys_Some [OF k])
  show "appState (refreshData_completion rv (Inr ks) s) = appState s"
    by (simp add: refreshData_completion_def updateRenderables_def refreshNetworks_def
        refreshKeySummary_def refreshDerivedKeys_Some [OF k])
  show "keysData (refreshData_completion rv (Inr ks) s) = Some ks"
    by (simp add: refreshData_completion_def updateRenderables_def refreshNetworks_def
        refreshKeySummary_def refreshDerivedKeys_Some [OF k])
qed

lemma networkFilter_refreshData_completion:
  "networkFilter (refreshData_completion rv (Inr ks) s) = networkFilter s"
  by (simp add: networkFilter_def refreshData_completion_success)

text \<open>
  Claim C7. Two refreshes in a row whose fetches both succeed with the same key set leave,
  after the second, the derived keys and the key summary that the first left.
\<close>

theorem refreshData_idempotent:
  "derivedKeys (refreshData_completion rowViewModel (Inr keySet) (refreshData
      (refreshData_completion rowViewModel (Inr keySet) (refreshData self))))
     = derivedKeys (refreshData_completion rowViewModel (Inr keySet) (refreshData self))
   \<and> keySummary (refreshData_completion rowViewModel (Inr keySet) (refreshData
      (refreshData_completion rowViewModel (Inr keySet) (refreshData self))))
     = keySummary (refreshData_completion rowViewModel (Inr keySet) (refreshData self))"
  by (simp add: refreshData_completion_success networkFilter_refreshData
      networkFilter_refreshData_completion)

subsection \<open>Tapping a row\<close>

text \<open>
  Claim C8. A tap on a row while the selection overlay is not presented asks the action
  service for the key details: if the service answers nothing, the view model is left
  exactly as it was (nothing is presented, no error is set); if it answers with key
  details, they become the presented key details and the key-details screen is presented.
  While the selection overlay is presented the same tap changes the selected keys and
  nothing else.
\<close>

theorem onDerivedKeyTap_dispatch:
  "(\<not> isPresentingSelectionOverlay self
      \<and> navigateToPublicKey (ViewModel.keyName self) (DerivedKeyRowModel.publicKeyDetails row) = None
      \<longrightarrow> onDerivedKeyTap navigateToPublicKey row self = self)
   \<and> (\<forall>keyDetails.
        \<not> isPresentingSelectionOverlay self
        \<and> navigateToPublicKey (ViewModel.keyName self) (DerivedKeyRowModel.publicKeyDetails row)
            = Some keyDetails
        \<longrightarrow> onDerivedKeyTap navigateToPublicKey row self
              = self \<lparr> presentedPublicKeyDetails := Some (DerivedKeyRowModel.publicKeyDetails row),
                       presentedKeyDetails := Some keyDetails,
                       isPresentingKeyDetails := True \<rparr>)
   \<and> (isPresentingSelectionOverlay self
        \<longrightarrow> onDerivedKeyTap navigateToPublicKey row self
              = self \<lparr> selectedKeys :=
                         (if row \<in> set (selectedKeys self) then removeAll row (selectedKeys self)
                          else selectedKeys self @ [row]) \<rparr>)"
  by (simp add: onDerivedKeyTap_def filter_neq_removeAll)

subsection \<open>Closing the network selection\<close>

lemma use_sink_frame:
  "keysData (use_sink b s) = keysData s" "networkFilter (use_sink b s) = networkFilter s"
  by (simp_all add: use_sink_def networkFilter_def)

text \<open>
  Claim C9. When \<^verbatim>\<open>isPresentingNetworkSelection\<close> is assigned false, the view model sets
  \<open>isFilteringActive\<close> to whether the network filter is not empty and runs the derived-key
  projection again: with a key set stored, the derived keys become the projection of that
  key set under the current filter; with none stored, they stay.
\<close>

theorem networkSelection_dismissed:
  "(isFilteringActive (set_isPresentingNetworkSelection rowViewModel False self)
      \<longleftrightarrow> networkFilter self \<noteq> {})
   \<and> \<not> isPresentingNetworkSelection (set_isPresentingNetworkSelection rowViewModel False self)
   \<and> (\<forall>keySet. keysData self = Some keySet \<longrightarrow>
         derivedKeys (set_isPresentingNetworkSelection rowViewModel False self)
           = derivedKeyProjection_spec rowViewModel keySet (networkFilter self))
   \<and> (keysData self = None \<longrightarrow>
         derivedKeys (set_isPresentingNetworkSelection rowViewModel False self) = derivedKeys self)"
proof -
  let ?u = "use_sink False self"
  have u: "isFilteringActive ?u = (networkFilter self \<noteq> {})"
    by (simp add: use_sink_def networkFilter_def)
  have a: "isFilteringActive (refreshDerivedKeys rowViewModel ?u) = isFilteringActive ?u"
    by (simp add: refreshDerivedKeys_def Let_def split: option.splits)
  have b: "derivedKeys (refreshDerivedKeys rowViewModel ?u)
             = derivedKeyProjection_spec rowViewModel ks (networkFilter self)"
    if "keysData self = Some ks" for ks
  proof -
    from that have "keysData ?u = Some ks" by (simp add: use_sink_frame)
    from refreshDerivedKeys_Some [OF this] show ?thesis by (simp add: use_sink_frame)
  qed
  have c: "derivedKeys (refreshDerivedKeys rowViewModel ?u) = derivedKeys self"
    if "keysData self = None"
  proof -
    from that have "keysData ?u = None" by (simp add: use_sink_frame)
    from refreshDerivedKeys_None [OF this] show ?thesis by (simp add: use_sink_def)
  qed
  show ?thesis
    by (simp add: set_isPresentingNetworkSelection_def subscribeToNetworkChanges_sink_def a u b c)
qed

subsection \<open>Examples of a tap and of closing the network selection\<close>

lemma selectedKeys_init: "selectedKeys (init rv n kd a) = []"
  by (simp add: init_defs split: option.splits)

lemma derivedKeys_init_Some:
  "derivedKeys (init rv n (Some ks) a)
     = derivedKeyProjection_spec rv ks (set (map MmNetwork.key (selectedNetworks (userData a))))"
  by (simp add: init_defs derivedKeyProjection_spec_def sorted_by_pathOf)

text \<open>
  A tap outside selection mode with a service that declines, one with a service that
  answers, and a tap in selection mode.
\<close>

theorem onDerivedKeyTap_dispatch_witness:
  "onDerivedKeyTap (\<lambda>keyName details. None) (exampleRow ''//0'' ''A'') (exampleViewModel None [])
     = exampleViewModel None []
   \<and> onDerivedKeyTap (\<lambda>keyName details. Some (keyName @ details)) (exampleRow ''//0'' ''A'')
        (exampleViewModel None [])
     = (exampleViewModel None [])
         \<lparr> presentedPublicKeyDetails := Some ''A//0'',
           presentedKeyDetails := Some ''AliceA//0'',
           isPresentingKeyDetails := True \<rparr>
   \<and> onDerivedKeyTap (\<lambda>keyName details. None) (exampleRow ''//0'' ''A'')
        ((exampleViewModel None []) \<lparr> isPresentingSelectionOverlay := True \<rparr>)
     = (exampleViewModel None [])
         \<lparr> isPresentingSelectionOverlay := True, selectedKeys := [exampleRow ''//0'' ''A''] \<rparr>"
  using onDerivedKeyTap_dispatch
          [of "exampleViewModel None []" "\<lambda>keyName details. None" "exampleRow ''//0'' ''A''"]
        onDerivedKeyTap_dispatch
          [of "exampleViewModel None []" "\<lambda>keyName details. Some (keyName @ details)"
              "exampleRow ''//0'' ''A''"]
        onDerivedKeyTap_dispatch
          [of "(exampleViewModel None []) \<lparr> isPresentingSelectionOverlay := True \<rparr>"
              "\<lambda>keyName details. None" "exampleRow ''//0'' ''A''"]
  by (simp add: exampleViewModel_def flags_init selectedKeys_init keyName_init exampleRow_def
        exampleCard_def)

text \<open>
  Two derived keys, on the networks \<open>A\<close> and \<open>B\<close>, both listed; the network selection is
  open and \<open>A\<close> has been selected. Closing it leaves the row of network \<open>A\<close> only and
  turns \<open>isFilteringActive\<close> on. Without a key set and without a selected network, closing
  it leaves no derived keys and \<open>isFilteringActive\<close> off.
\<close>

theorem networkSelection_dismissed_witness:
  "keysData ((exampleViewModel (Some (exampleKeySet
        [exampleCard ''//1'' ''B'', exampleCard ''//0'' ''A''])) [])
        \<lparr> appState := exampleAppState [''A''], isPresentingNetworkSelection := True \<rparr>)
     = Some (exampleKeySet [exampleCard ''//1'' ''B'', exampleCard ''//0'' ''A''])
   \<and> derivedKeys ((exampleViewModel (Some (exampleKeySet
        [exampleCard ''//1'' ''B'', exampleCard ''//0'' ''A''])) [])
        \<lparr> appState := exampleAppState [''A''], isPresentingNetworkSelection := True \<rparr>)
     = [exampleRow ''//0'' ''A'', exampleRow ''//1'' ''B'']
   \<and> isFilteringActive (set_isPresentingNetworkSelection pathOf False
        ((exampleViewModel (Some (exampleKeySet
          [exampleCard ''//1'' ''B'', exampleCard ''//0'' ''A''])) [])
          \<lparr> appState := exampleAppState [''A''], isPresentingNetworkSelection := True \<rparr>))
   \<and> derivedKeys (set_isPresentingNetworkSelection pathOf False
        ((exampleViewModel (Some (exampleKeySet
          [exampleCard ''//1'' ''B'', exampleCard ''//0'' ''A''])) [])
          \<lparr> appState := exampleAppState [''A''], isPresentingNetworkSelection := True \<rparr>))
     = [exampleRow ''//0'' ''A'']
   \<and> keysData ((exampleViewModel None []) \<lparr> isPresentingNetworkSelection := True \<rparr>) = None
   \<and> \<not> isFilteringActive (set_isPresentingNetworkSelection pathOf False
        ((exampleViewModel None []) \<lparr> isPresentingNetworkSelection := True \<rparr>))
   \<and> derivedKeys (set_isPresentingNetworkSelection pathOf False
        ((exampleViewModel None []) \<lparr> isPresentingNetworkSelection := True \<rparr>)) = []"
proof -
  let ?ks = "exampleKeySet [exampleCard ''//1'' ''B'', exampleCard ''//0'' ''A'']"
  let ?self = "(exampleViewModel (Some ?ks) [])
        \<lparr> appState := exampleAppState [''A''], isPresentingNetworkSelection := True \<rparr>"
  let ?none = "(exampleViewModel None []) \<lparr> isPresentingNetworkSelection := True \<rparr>"
  have k: "keysData ?self = Some ?ks" by (simp add: exampleViewModel_keysData)
  have nf: "networkFilter ?self = {''A''}"
    by (simp add: networkFilter_def exampleAppState_def)
  have before: "derivedKeys ?self = [exampleRow ''//0'' ''A'', exampleRow ''//1'' ''B'']"
    by (simp add: exampleViewModel_def derivedKeys_init_Some exampleAppState_def
        derivedKeyProjection_spec_def exampleKeySet_def exampleCard_def exampleRow_def pathOf_def)
  have after: "derivedKeyProjection_spec pathOf ?ks {''A''} = [exampleRow ''//0'' ''A'']"
    by (simp add: derivedKeyProjection_spec_def exampleKeySet_def exampleCard_def exampleRow_def
        pathOf_def)
  have k0: "keysData ?none = None" by (simp add: exampleViewModel_keysData)
  have nf0: "networkFilter ?none = {}"
    by (simp add: networkFilter_def exampleViewModel_def appState_init exampleAppState_def)
  have before0: "derivedKeys ?none = []"
    by (simp add: exampleViewModel_def init_None)
  from networkSelection_dismissed [of pathOf ?self] networkSelection_dismissed [of pathOf ?none]
    k nf before after k0 nf0 before0
  show ?thesis by simp
qed

subsection \<open>Failures of the network provider\<close>

text \<open>The handler of \<^verbatim>\<open>refreshNetworks\<close> presents the failure.\<close>

lemma refreshNetworks_failure:
  "isPresentingError (refreshNetworks_completion (Inl error) self)
   \<and> presentableError (refreshNetworks_completion (Inl error) self) = alertError (description error)"
  by (simp add: refreshNetworks_completion_def)

lemma onNetworkSelectionTap_completion_failure:
  "onNetworkSelectionTap_completion rv (Inl error) self = self"
  by (simp add: onNetworkSelectionTap_completion_def)

text \<open>
  Claim C3. Every operation that calls a provider should present a failure of the provider
  through the error flag. The handler of \<^verbatim>\<open>onNetworkSelectionTap\<close> matches the success
  case only: when \<^verbatim>\<open>getNetworks\<close> fails with \<open>timeout\<close> there, the view model is left as
  it was, the error flag stays off and the presented error is still the default one, while
  the handler of \<^verbatim>\<open>refreshNetworks\<close> sets the flag on the same answer of the same service.
\<close>

theorem onNetworkSelectionTap_failure_dropped:
  "\<not> isPresentingError (onNetworkSelectionTap_completion pathOf
        (Inl \<lparr> description = ''timeout'' \<rparr>) (onNetworkSelectionTap (exampleViewModel None [])))
   \<and> presentableError (onNetworkSelectionTap_completion pathOf
        (Inl \<lparr> description = ''timeout'' \<rparr>) (onNetworkSelectionTap (exampleViewModel None [])))
       = noNetworksAvailable
   \<and> onNetworkSelectionTap_completion pathOf
        (Inl \<lparr> description = ''timeout'' \<rparr>) (onNetworkSelectionTap (exampleViewModel None []))
       = onNetworkSelectionTap (exampleViewModel None [])
   \<and> isPresentingError (refreshNetworks_completion
        (Inl \<lparr> description = ''timeout'' \<rparr>) (refreshNetworks (exampleViewModel None [])))"
  by (simp add: onNetworkSelectionTap_completion_def onNetworkSelectionTap_def
      refreshNetworks_completion_def exampleViewModel_def init_defs)

subsection \<open>Before the first successful fetch\<close>

lemma step_awaitingFirstFetch:
  assumes "awaitingFirstFetch s" "\<not> successfulFetch e"
  shows "awaitingFirstFetch (step rv s e)"
proof (cases e)
  case (RefreshDataCompleted result)
  with assms show ?thesis
    by (cases result) (simp_all add: awaitingFirstFetch_def refreshData_completion_def)
next
  case (RefreshNetworksCompleted result)
  with assms show ?thesis
    by (cases result) (simp_all add: awaitingFirstFetch_def refreshNetworks_completion_def)
next
  case (NetworkSelectionTapCompleted result)
  with assms show ?thesis
    by (cases result)
       (simp_all add: awaitingFirstFetch_def onNetworkSelectionTap_completion_def
          set_isPresentingNetworkSelection_def subscribeToNetworkChanges_sink_def use_sink_def)
next
  case (NetworkSelectionAssigned b)
  with assms show ?thesis
    by (simp add: awaitingFirstFetch_def set_isPresentingNetworkSelection_def
        subscribeToNetworkChanges_sink_def use_sink_def refreshDerivedKeys_def)
next
  case (DerivedKeyTap nav row)
  with assms show ?thesis
    by (simp add: awaitingFirstFetch_def onDerivedKeyTap_def split: option.splits)
next
  case (RemoveKeySetConfirmationTap f)
  with assms show ?thesis
    by (simp add: awaitingFirstFetch_def onRemoveKeySetConfirmationTap_def Let_def)
qed (use assms in \<open>simp_all add: awaitingFirstFetch_def refreshData_def refreshNetworks_def
      updateRenderables_def refreshKeySummary_def refreshDerivedKeys_def onNetworkSelectionTap_def\<close>)

lemma run_awaitingFirstFetch:
  assumes "awaitingFirstFetch s" "\<forall>e \<in> set events. \<not> successfulFetch e"
  shows "awaitingFirstFetch (run rv events s)"
  using assms unfolding run_def
  by (induction events arbitrary: s) (simp_all add: step_awaitingFirstFetch)

lemma init_awaitingFirstFetch: "awaitingFirstFetch (init rv n None a)"
  by (simp add: awaitingFirstFetch_def keysData_init init_None)

text \<open>
  Claim C10. While no key set is stored, \<^verbatim>\<open>refreshDerivedKeys\<close> and
  \<^verbatim>\<open>refreshKeySummary\<close> change nothing. A view model constructed without key-set data
  has the view state \<open>list\<close> and no derived keys, and keeps them (and no key summary)
  through every run of events in which no fetch of the key set succeeds.
\<close>

theorem refresh_without_keysData:
  "(keysData (self :: ('vm, 'kd, 'bm) ViewModel) = None \<longrightarrow>
      refreshDerivedKeys rowViewModel self = self \<and> refreshKeySummary self = self)
   \<and> viewState (init rowViewModel name None app :: ('vm, 'kd, 'bm) ViewModel) = list
   \<and> derivedKeys (init rowViewModel name None app :: ('vm, 'kd, 'bm) ViewModel) = []
   \<and> ((\<forall>event \<in> set events. \<not> successfulFetch event) \<longrightarrow>
        viewState (run rowViewModel events
          (init rowViewModel name None app :: ('vm, 'kd, 'bm) ViewModel)) = list
        \<and> derivedKeys (run rowViewModel events
          (init rowViewModel name None app :: ('vm, 'kd, 'bm) ViewModel)) = []
        \<and> keySummary (run rowViewModel events
          (init rowViewModel name None app :: ('vm, 'kd, 'bm) ViewModel)) = None)"
proof -
  let ?start = "init rowViewModel name None app :: ('vm, 'kd, 'bm) ViewModel"
  have "viewState (run rowViewModel events ?start) = list
        \<and> derivedKeys (run rowViewModel events ?start) = []
        \<and> keySummary (run rowViewModel events ?start) = None"
    if quiet: "\<forall>event \<in> set events. \<not> successfulFetch event"
  proof -
    have "awaitingFirstFetch (run rowViewModel events ?start)"
      by (rule run_awaitingFirstFetch [OF init_awaitingFirstFetch quiet])
    then show ?thesis by (simp add: awaitingFirstFetch_def)
  qed
  then show ?thesis
    by (simp add: refreshDerivedKeys_None refreshKeySummary_None init_None)
qed

text \<open>
  A view model constructed without key-set data, then a fetch of the key set that fails, an
  answer of the network provider, and a closing of the network selection.
\<close>

theorem refresh_without_keysData_witness:
  "keysData (exampleViewModel None []) = None
   \<and> refreshDerivedKeys pathOf (exampleViewModel None []) = exampleViewModel None []
   \<and> refreshKeySummary (exampleViewModel None []) = exampleViewModel None []
   \<and> viewState (exampleViewModel None []) = list
   \<and> derivedKeys (exampleViewModel None []) = []
   \<and> viewState (run pathOf
        [RefreshDataCompleted (Inl \<lparr> description = ''timeout'' \<rparr>),
         RefreshNetworksCompleted (Inr []),
         NetworkSelectionAssigned False]
        (exampleViewModel None [])) = list
   \<and> derivedKeys (run pathOf
        [RefreshDataCompleted (Inl \<lparr> description = ''timeout'' \<rparr>),
         RefreshNetworksCompleted (Inr []),
         NetworkSelectionAssigned False]
        (exampleViewModel None [])) = []"
  using refresh_without_keysData
          [of "exampleViewModel None []" pathOf "''Alice''" "exampleAppState []"
              "[RefreshDataCompleted (Inl \<lparr> description = ''timeout'' \<rparr>),
                RefreshNetworksCompleted (Inr []),
                NetworkSelectionAssigned False]"]
  by (simp add: exampleViewModel_def keysData_init)

end
